theory Spec2Isabelle
  imports Main
begin

section \<open>Data model of \<^verbatim>\<open>fileData.go\<close>\<close>

text \<open>
  Go strings and byte slices are both sequences of bytes; they are modelled as
  \<^typ>\<open>string\<close>. The struct \<^verbatim>\<open>FileDetails\<close> is a record with the
  source's field names. A \<^verbatim>\<open>pb.Response\<close> is either \<^verbatim>\<open>shim.Success(payload)\<close>
  or \<^verbatim>\<open>shim.Error(msg)\<close>; the payload \<^verbatim>\<open>nil\<close> is the empty byte sequence.
  A Go run-time panic is a value of its own, so that a handler that panics is
  a branch of the model and not an unspecified result.
\<close>

type_synonym bytes = string

record FileDetails =
  FileName :: string
  FileHash :: string
  FileUrl :: string

datatype response = Success bytes | Error string

datatype panic = IndexOutOfRange nat nat

text \<open>
  A result iterator (\<^verbatim>\<open>shim.StateQueryIteratorInterface\<close>) is finite and read
  once, front to back. It is the list of the results of its successive
  \<^verbatim>\<open>Next()\<close> calls: \<open>Inr (key, value)\<close> for a pair, \<open>Inl err\<close> when the
  advance fails. \<^verbatim>\<open>HasNext()\<close> holds as long as the list is not empty.
\<close>

type_synonym iterator = "(string + string \<times> bytes) list"

section \<open>The chaincode stub\<close>

text \<open>
  The ledger is an external collaborator. Its world state is the map \<open>kv\<close>;
  \<open>calls\<close> records every call the chaincode makes on the stub, in order.
  When a call fails is decided outside the program, so the failures are
  parameters: \<open>getFails\<close>, \<open>putFails\<close> and \<open>delFails\<close> give the error text of a
  read, write or deletion that fails, \<open>compositeKey\<close> is the composite-key
  builder of the ledger and \<open>queryEngine\<close> its rich-query engine. The two
  routines of \<^verbatim>\<open>encoding/json\<close> the handlers call are parameters as well.
\<close>

datatype call =
    CGetState string
  | CPutState string bytes
  | CDelState string
  | CCreateCompositeKey string "string list"
  | CGetQueryResult string
  | CClose

record stub =
  kv :: "string \<rightharpoonup> bytes"
  calls :: "call list"
  getFails :: "string \<Rightarrow> string option"
  putFails :: "string \<Rightarrow> bytes \<Rightarrow> string option"
  delFails :: "string \<Rightarrow> string option"
  compositeKey :: "string \<Rightarrow> string list \<Rightarrow> string + string"
  queryEngine :: "string \<Rightarrow> string + iterator"
  jsonMarshal :: "FileDetails \<Rightarrow> string + bytes"
  jsonUnmarshal :: "bytes \<Rightarrow> string + FileDetails"

definition logCall :: "call \<Rightarrow> stub \<Rightarrow> stub" where
  "logCall c stub = stub\<lparr>calls := calls stub @ [c]\<rparr>"

definition GetState :: "stub \<Rightarrow> string \<Rightarrow> (string + bytes option) \<times> stub" where
  "GetState stub key =
     ((case getFails stub key of Some err \<Rightarrow> Inl err | None \<Rightarrow> Inr (kv stub key)),
      logCall (CGetState key) stub)"

definition PutState :: "stub \<Rightarrow> string \<Rightarrow> bytes \<Rightarrow> string option \<times> stub" where
  "PutState stub key val =
     (case putFails stub key val of
        Some err \<Rightarrow> (Some err, logCall (CPutState key val) stub)
      | None \<Rightarrow> (None, logCall (CPutState key val) (stub\<lparr>kv := (kv stub)(key \<mapsto> val)\<rparr>)))"

definition DelState :: "stub \<Rightarrow> string \<Rightarrow> string option \<times> stub" where
  "DelState stub key =
     (case delFails stub key of
        Some err \<Rightarrow> (Some err, logCall (CDelState key) stub)
      | None \<Rightarrow> (None, logCall (CDelState key) (stub\<lparr>kv := (kv stub)(key := None)\<rparr>)))"

definition CreateCompositeKey :: "stub \<Rightarrow> string \<Rightarrow> string list \<Rightarrow> (string + string) \<times> stub" where
  "CreateCompositeKey stub objectType attributes =
     (compositeKey stub objectType attributes,
      logCall (CCreateCompositeKey objectType attributes) stub)"

definition GetQueryResult :: "stub \<Rightarrow> string \<Rightarrow> (string + iterator) \<times> stub" where
  "GetQueryResult stub query =
     (queryEngine stub query, logCall (CGetQueryResult query) stub)"

section \<open>Query materialization\<close>

text \<open>
  The loop of \<^verbatim>\<open>constructQueryResponseFromIterator\<close>, with its two loop
  variables: the buffer and the flag \<^verbatim>\<open>bArrayMemberAlreadyWritten\<close>.
\<close>

fun iteratorLoop :: "iterator \<Rightarrow> string \<Rightarrow> bool \<Rightarrow> string + string" where
  \<open>iteratorLoop [] buffer bArrayMemberAlreadyWritten = Inr buffer\<close>
| \<open>iteratorLoop (Inl err # resultsIterator) buffer bArrayMemberAlreadyWritten = Inl err\<close>
| \<open>iteratorLoop (Inr (key, val) # resultsIterator) buffer bArrayMemberAlreadyWritten =
     iteratorLoop resultsIterator
       ((if bArrayMemberAlreadyWritten = True then buffer @ '','' else buffer)
          @ ''{"Key":'' @ ''"'' @ key @ ''"'' @ '', "Record":'' @ val @ ''}'')
       True\<close>

definition constructQueryResponseFromIterator :: "iterator \<Rightarrow> string + string" where
  \<open>constructQueryResponseFromIterator resultsIterator =
     (case iteratorLoop resultsIterator ''['' False of
        Inl err \<Rightarrow> Inl err
      | Inr buffer \<Rightarrow> Inr (buffer @ '']''))\<close>

section \<open>The handlers\<close>

text \<open>
  \<^verbatim>\<open>strings.ToLower\<close> on the ASCII letters; the other bytes are kept. (Go also
  maps the upper-case letters beyond ASCII, which no statement below uses.)
\<close>

definition ToLower :: "string \<Rightarrow> string" where
  "ToLower s =
     map (\<lambda>c. if 65 \<le> (of_char c :: nat) \<and> (of_char c :: nat) \<le> 90
              then char_of (of_char c + (32 :: nat)) else c) s"

text \<open>Indexing a Go slice: out of range it panics.\<close>

definition index :: "'a list \<Rightarrow> nat \<Rightarrow> panic + 'a" where
  "index xs i = (if i < length xs then Inr (xs ! i) else Inl (IndexOutOfRange i (length xs)))"

text \<open>
  A part of \<^verbatim>\<open>initFile\<close>, not a function of the source: its statements from
  the uniqueness check on (lines 69 to 102), in terms of the three local
  variables \<^verbatim>\<open>fileName\<close>, \<^verbatim>\<open>fileHash\<close> and \<^verbatim>\<open>fileUrl\<close>. It is used in the
  definition of \<^verbatim>\<open>initFile\<close> below. The result of the last \<^verbatim>\<open>PutState\<close> is
  dropped, as in the source.
\<close>

definition initFile_store :: "stub \<Rightarrow> string \<Rightarrow> string \<Rightarrow> string \<Rightarrow> response \<times> stub" where
  "initFile_store stub fileName fileHash fileUrl =
     (case GetState stub fileName of
        (Inl err, s1) \<Rightarrow> (Error (''Failed to get file: '' @ err), s1)
      | (Inr (Some filenameAsBytes), s1) \<Rightarrow>
          (Error (''This file is  already exists: '' @ fileName), s1)
      | (Inr None, s1) \<Rightarrow>
          (let filestore = \<lparr>FileName = fileName, FileHash = fileHash, FileUrl = fileUrl\<rparr> in
           case jsonMarshal s1 filestore of
             Inl err \<Rightarrow> (Error err, s1)
           | Inr fileJSONasBytes \<Rightarrow>
               (case PutState s1 fileName fileJSONasBytes of
                  (Some err, s2) \<Rightarrow> (Error err, s2)
                | (None, s2) \<Rightarrow>
                    (case CreateCompositeKey s2 ''hash~name''
                            [FileHash filestore, FileName filestore] of
                       (Inl err, s3) \<Rightarrow> (Error err, s3)
                     | (Inr fileHashNameIndexKey, s3) \<Rightarrow>
                         (case PutState s3 fileHashNameIndexKey [CHR 0x00] of
                            (ignored, s4) \<Rightarrow> (Success [], s4))))))"

text \<open>
  \<^verbatim>\<open>initFile\<close>: the argument checks, then the three locals. The third local
  is read from \<^verbatim>\<open>args[3]\<close>, on a slice whose length was checked to be 3.
\<close>

definition initFile :: "stub \<Rightarrow> string list \<Rightarrow> (panic + response) \<times> stub" where
  "initFile stub args =
     (if length args \<noteq> 3 then
        (Inr (Error ''Incorrect number of arguments. Expecting 4''), stub)
      else if length (args ! 0) \<le> 0 then
        (Inr (Error ''1st argument must be a non-empty string''), stub)
      else if length (args ! 1) \<le> 0 then
        (Inr (Error ''2nd argument must be a non-empty string''), stub)
      else if length (args ! 2) \<le> 0 then
        (Inr (Error ''3rd argument must be a non-empty string''), stub)
      else
        (let fileName = args ! 0;
             fileHash = ToLower (args ! 1)
         in case index args 3 of
              Inl p \<Rightarrow> (Inl p, stub)
            | Inr a3 \<Rightarrow>
                (case initFile_store stub fileName fileHash (ToLower a3) of
                   (r, s) \<Rightarrow> (Inr r, s))))"

definition deleteFile :: "stub \<Rightarrow> string list \<Rightarrow> response \<times> stub" where
  \<open>deleteFile stub args =
     (if length args \<noteq> 1 then
        (Error ''Incorrect number of arguments. Expecting 1'', stub)
      else
        (let filename = args ! 0 in
         case GetState stub filename of
           (Inl err, s1) \<Rightarrow>
             (Error (''{"Error":"Failed to get state for '' @ filename @ ''"}''), s1)
         | (Inr None, s1) \<Rightarrow>
             (Error (''{"Error":"Marble does not exist: '' @ filename @ ''"}''), s1)
         | (Inr (Some valAsbytes), s1) \<Rightarrow>
             (case jsonUnmarshal s1 valAsbytes of
                Inl err \<Rightarrow>
                  (Error (''{"Error":"Failed to decode JSON of: '' @ filename @ ''"}''), s1)
              | Inr fileJSON \<Rightarrow>
                  (case DelState s1 filename of
                     (Some err, s2) \<Rightarrow> (Error (''Failed to delete state:'' @ err), s2)
                   | (None, s2) \<Rightarrow>
                       (case CreateCompositeKey s2 ''Hash~name''
                               [FileHash fileJSON, FileName fileJSON] of
                          (Inl err, s3) \<Rightarrow> (Error err, s3)
                        | (Inr colorNameIndexKey, s3) \<Rightarrow>
                            (case DelState s3 colorNameIndexKey of
                               (Some err, s4) \<Rightarrow> (Error (''Failed to delete state:'' @ err), s4)
                             | (None, s4) \<Rightarrow> (Success [], s4)))))))\<close>

text \<open>
  \<^verbatim>\<open>getQueryResultForQueryString\<close>: once the engine has returned a cursor, the
  deferred \<^verbatim>\<open>Close\<close> runs on every way out.
\<close>

definition getQueryResultForQueryString :: "stub \<Rightarrow> string \<Rightarrow> (string + bytes) \<times> stub" where
  "getQueryResultForQueryString stub queryString =
     (case GetQueryResult stub queryString of
        (Inl err, s1) \<Rightarrow> (Inl err, s1)
      | (Inr resultsIterator, s1) \<Rightarrow>
          (case constructQueryResponseFromIterator resultsIterator of
             Inl err \<Rightarrow> (Inl err, logCall CClose s1)
           | Inr buffer \<Rightarrow> (Inr buffer, logCall CClose s1)))"

definition queryfile :: "stub \<Rightarrow> string list \<Rightarrow> response \<times> stub" where
  "queryfile stub args =
     (if length args < 1 then
        (Error ''Incorrect number of arguments. Expecting 1'', stub)
      else
        (let queryString = args ! 0 in
         case getQueryResultForQueryString stub queryString of
           (Inl err, s1) \<Rightarrow> (Error err, s1)
         | (Inr queryResults, s1) \<Rightarrow> (Success queryResults, s1)))"

definition Init :: "stub \<Rightarrow> response \<times> stub" where
  "Init stub = (Success [], stub)"

definition Invoke :: "stub \<Rightarrow> string \<Rightarrow> string list \<Rightarrow> (panic + response) \<times> stub" where
  "Invoke stub function args =
     (if function = ''initFile'' then initFile stub args
      else if function = ''deletefile'' then
        (case deleteFile stub args of (r, s) \<Rightarrow> (Inr r, s))
      else if function = ''queryfile'' then
        (case queryfile stub args of (r, s) \<Rightarrow> (Inr r, s))
      else (Inr (Error ''Received unknown function invocation''), stub))"



section \<open>A concrete ledger\<close>

text \<open>
  A ledger to run the handlers on. Its composite keys are those of the Fabric
  shim: the namespace byte \<open>0x00\<close>, the object type, and each attribute, every
  part closed by \<open>0x00\<close>; a part that holds \<open>0x00\<close> is refused. Its JSON
  encoder writes the three fields the way \<^verbatim>\<open>json.Marshal\<close> does for strings that
  need no escaping, and its decoder reads the one record the examples store.
\<close>

definition shimCompositeKey :: "string \<Rightarrow> string list \<Rightarrow> string + string" where
  "shimCompositeKey objectType attributes =
     (if CHR 0x00 \<in> set (concat (objectType # attributes)) then
        Inl ''input contain unicode U+0000''
      else
        Inr (CHR 0x00 # objectType @ [CHR 0x00] @ concat (map (\<lambda>a. a @ [CHR 0x00]) attributes)))"

definition plainMarshal :: "FileDetails \<Rightarrow> string + bytes" where
  \<open>plainMarshal f =
     Inr (''{"FileName":"'' @ FileName f @ ''","FileHash":"'' @ FileHash f
            @ ''","FileUrl":"'' @ FileUrl f @ ''"}'')\<close>

definition exampleRecord :: bytes where
  \<open>exampleRecord = ''{"FileName":"f","FileHash":"ab","FileUrl":"u"}''\<close>

definition exampleUnmarshal :: "bytes \<Rightarrow> string + FileDetails" where
  "exampleUnmarshal b =
     (if b = exampleRecord then Inr \<lparr>FileName = ''f'', FileHash = ''ab'', FileUrl = ''u''\<rparr>
      else Inl ''invalid character'')"

definition emptyLedger :: stub where
  "emptyLedger =
     \<lparr>kv = Map.empty, calls = [],
      getFails = (\<lambda>k. None), putFails = (\<lambda>k v. None), delFails = (\<lambda>k. None),
      compositeKey = shimCompositeKey,
      queryEngine = (\<lambda>q. Inr []),
      jsonMarshal = plainMarshal, jsonUnmarshal = exampleUnmarshal\<rparr>"

text \<open>
  A ledger that holds the record \<^verbatim>\<open>f\<close> and an index entry for it, put there
  by hand: the two entries that lines 85 and 98 of \<^verbatim>\<open>initFile\<close> would write
  for the name \<^verbatim>\<open>f\<close> and the hash \<^verbatim>\<open>ab\<close>.
\<close>

definition hashNameKey :: string where
  "hashNameKey = CHR 0x00 # ''hash~name'' @ [CHR 0x00] @ ''ab'' @ [CHR 0x00] @ ''f'' @ [CHR 0x00]"

definition storedLedger :: stub where
  "storedLedger = emptyLedger\<lparr>kv := [''f'' \<mapsto> exampleRecord, hashNameKey \<mapsto> [CHR 0x00]]\<rparr>"

text \<open>Ledgers on which one call fails.\<close>

definition indexDeleteFailsLedger :: stub where
  "indexDeleteFailsLedger =
     storedLedger\<lparr>delFails := (\<lambda>k. if k = ''f'' then None else Some ''delete refused'')\<rparr>"

definition keyBuildFailsLedger :: stub where
  "keyBuildFailsLedger =
     storedLedger\<lparr>compositeKey := (\<lambda>objectType attributes. Inl ''not a valid utf8 string'')\<rparr>"

section \<open>Well-formed JSON text\<close>

text \<open>
  A recognizer for the JSON grammar of RFC 8259 on bytes, by recursive descent.
  Each function returns the input left after what it has read, or \<open>None\<close>.
  The first argument of \<open>jsonValue\<close>, \<open>jsonElements\<close> and \<open>jsonMembers\<close>
  bounds the number of nested calls; every call reads at least one byte, so the
  length of the text is enough.
\<close>

definition isDigit :: "char \<Rightarrow> bool" where
  "isDigit c = (c \<in> set ''0123456789'')"

definition isHex :: "char \<Rightarrow> bool" where
  "isHex c = (c \<in> set ''0123456789abcdefABCDEF'')"

fun skipWs :: "string \<Rightarrow> string" where
  "skipWs [] = []"
| "skipWs (c # cs) =
     (if c \<in> set [CHR '' '', CHR 0x09, CHR 0x0A, CHR 0x0D] then skipWs cs else c # cs)"

fun jsonChars :: "string \<Rightarrow> string option" where
  "jsonChars [] = None"
| "jsonChars [c] = (if c = CHR 0x22 then Some [] else None)"
| "jsonChars (c # e # cs) =
     (if c = CHR 0x22 then Some (e # cs)
      else if c = CHR 0x5C then
        (if e \<in> set [CHR 0x22, CHR 0x5C, CHR ''/'', CHR ''b'', CHR ''f'', CHR ''n'', CHR ''r'', CHR ''t'']
         then jsonChars cs
         else if e = CHR ''u'' \<and> 4 \<le> length cs \<and> list_all isHex (take 4 cs)
         then jsonChars (drop 4 cs)
         else None)
      else if (of_char c :: nat) < 32 then None
      else jsonChars (e # cs))"

definition jsonDigits :: "string \<Rightarrow> string option" where
  "jsonDigits s = (if takeWhile isDigit s = [] then None else Some (dropWhile isDigit s))"

definition jsonNumber :: "string \<Rightarrow> string option" where
  "jsonNumber s =
     (let s1 = (if s \<noteq> [] \<and> hd s = CHR ''-'' then tl s else s);
          ds = takeWhile isDigit s1;
          r1 = dropWhile isDigit s1
      in if ds = [] \<or> (hd ds = CHR ''0'' \<and> 1 < length ds) then None
         else
           (case (if r1 \<noteq> [] \<and> hd r1 = CHR ''.'' then jsonDigits (tl r1) else Some r1) of
              None \<Rightarrow> None
            | Some r2 \<Rightarrow>
                (if r2 \<noteq> [] \<and> hd r2 \<in> set ''eE'' then
                   (let r3 = tl r2;
                        r4 = (if r3 \<noteq> [] \<and> hd r3 \<in> set ''+-'' then tl r3 else r3)
                    in jsonDigits r4)
                 else Some r2)))"

definition jsonLiteral :: "string \<Rightarrow> string \<Rightarrow> string option" where
  "jsonLiteral w s = (if take (length w) s = w then Some (drop (length w) s) else None)"

fun jsonValue :: "nat \<Rightarrow> string \<Rightarrow> string option"
  and jsonElements :: "nat \<Rightarrow> string \<Rightarrow> string option"
  and jsonMembers :: "nat \<Rightarrow> string \<Rightarrow> string option"
where
  "jsonValue 0 s = None"
| "jsonValue (Suc n) [] = None"
| "jsonValue (Suc n) (c # cs) =
     (if c = CHR ''['' then
        (case skipWs cs of
           [] \<Rightarrow> None
         | d # r \<Rightarrow> if d = CHR '']'' then Some r else jsonElements n (d # r))
      else if c = CHR ''{'' then
        (case skipWs cs of
           [] \<Rightarrow> None
         | d # r \<Rightarrow> if d = CHR ''}'' then Some r else jsonMembers n (d # r))
      else if c = CHR 0x22 then jsonChars cs
      else if c = CHR ''t'' then jsonLiteral ''true'' (c # cs)
      else if c = CHR ''f'' then jsonLiteral ''false'' (c # cs)
      else if c = CHR ''n'' then jsonLiteral ''null'' (c # cs)
      else jsonNumber (c # cs))"
| "jsonElements 0 s = None"
| "jsonElements (Suc n) s =
     (case jsonValue n s of
        None \<Rightarrow> None
      | Some r \<Rightarrow>
          (case skipWs r of
             [] \<Rightarrow> None
           | d # r1 \<Rightarrow>
               if d = CHR '','' then jsonElements n (skipWs r1)
               else if d = CHR '']'' then Some r1
               else None))"
| "jsonMembers 0 s = None"
| "jsonMembers (Suc n) [] = None"
| "jsonMembers (Suc n) (q # cs) =
     (if q \<noteq> CHR 0x22 then None
      else
        (case jsonChars cs of
           None \<Rightarrow> None
         | Some r \<Rightarrow>
             (case skipWs r of
                [] \<Rightarrow> None
              | d # r1 \<Rightarrow>
                  if d \<noteq> CHR '':'' then None
                  else
                    (case jsonValue n (skipWs r1) of
                       None \<Rightarrow> None
                     | Some r2 \<Rightarrow>
                         (case skipWs r2 of
                            [] \<Rightarrow> None
                          | e # r3 \<Rightarrow>
                              if e = CHR '','' then jsonMembers n (skipWs r3)
                              else if e = CHR ''}'' then Some r3
                              else None)))))"

definition wellFormedJSONArray :: "string \<Rightarrow> bool" where
  "wellFormedJSONArray s =
     (case skipWs s of
        [] \<Rightarrow> False
      | c # cs \<Rightarrow>
          c = CHR ''['' \<and>
          (case jsonValue (Suc (length s)) (c # cs) of
             None \<Rightarrow> False
           | Some r \<Rightarrow> skipWs r = []))"

section \<open>Properties of the query materialization\<close>

lemma iteratorLoop_pairs:
  \<open>iteratorLoop (map Inr kvs) buffer True =
     Inr (buffer @ concat (map (\<lambda>(key, val). '',{"Key":"'' @ key @ ''", "Record":'' @ val @ ''}'') kvs))\<close>
  by (induction kvs arbitrary: buffer) auto

text \<open>
  C7. For a cursor that yields no pairs the query materialization returns
  exactly the two bytes \<^verbatim>\<open>[]\<close>.
\<close>

theorem empty_cursor_yields_brackets:
  \<open>constructQueryResponseFromIterator [] = Inr ''[]''\<close>
  by (simp add: constructQueryResponseFromIterator_def)

text \<open>
  C5, as the code has it. For a cursor that yields \<open>(k1, v1)\<close> and then
  \<open>(k2, v2)\<close> and whose advance never fails, the result is the two objects in
  cursor order, one comma between them and none after the last, each value
  copied as it is. Inside an object the source writes \<^verbatim>\<open>, "Record":\<close> with a
  space after the comma (line 233), so the bytes are
  \<^verbatim>\<open>[{"Key":"k1", "Record":v1},{"Key":"k2", "Record":v2}]\<close>.
\<close>

theorem two_pairs_result_shape:
  \<open>constructQueryResponseFromIterator [Inr (k1, v1), Inr (k2, v2)] =
     Inr (''[{"Key":"'' @ k1 @ ''", "Record":'' @ v1 @ ''},{"Key":"'' @ k2
           @ ''", "Record":'' @ v2 @ ''}]'')\<close>
  by (simp add: constructQueryResponseFromIterator_def)

text \<open>
  The bytes without that space are not what the code returns: for the keys
  \<^verbatim>\<open>k1\<close>, \<^verbatim>\<open>k2\<close> and the values \<^verbatim>\<open>1\<close>, \<^verbatim>\<open>2\<close> the result differs from
  \<^verbatim>\<open>[{"Key":"k1","Record":1},{"Key":"k2","Record":2}]\<close>.
\<close>

theorem result_shape_counterexample:
  \<open>constructQueryResponseFromIterator [Inr (''k1'', ''1''), Inr (''k2'', ''2'')]
     \<noteq> Inr ''[{"Key":"k1","Record":1},{"Key":"k2","Record":2}]''\<close>
  by (simp add: constructQueryResponseFromIterator_def)

text \<open>
  C9, as the code has it. For every cursor whose advance never fails, each key
  stands between two double quotes exactly as the cursor yielded it, with no
  escaping. A key that holds a double quote or a backslash can therefore make the
  result ill-formed: with the key \<^verbatim>\<open>"\<close> and the value \<^verbatim>\<open>1\<close> the result is
  \<^verbatim>\<open>[{"Key":""", "Record":1}]\<close>, which is not a JSON array: the second double
  quote closes the string, and the third stands where only a comma or a closing
  brace may. (Not every such key does, as the examples after the theorem show.)
\<close>

theorem keys_embedded_verbatim:
  \<open>constructQueryResponseFromIterator (map Inr ((k, v) # kvs)) =
     Inr (''[{"Key":"'' @ k @ ''", "Record":'' @ v @ ''}''
          @ concat (map (\<lambda>(key, val). '',{"Key":"'' @ key @ ''", "Record":'' @ val @ ''}'') kvs)
          @ '']'') \<and>
   constructQueryResponseFromIterator [Inr (''"'', ''1'')] = Inr ''[{"Key":""", "Record":1}]'' \<and>
   \<not> wellFormedJSONArray ''[{"Key":""", "Record":1}]''\<close>
  by (simp add: constructQueryResponseFromIterator_def iteratorLoop_pairs
      wellFormedJSONArray_def jsonNumber_def isDigit_def)

text \<open>
  Two keys that hold a backslash or a double quote and still give a well-formed
  array: the key of two backslashes, which a JSON reader takes for one escaped
  backslash, and the key \<^verbatim>\<open>a","b":"c\<close>, which closes the string and opens
  another member.
\<close>

theorem quoted_key_counterexample:
  \<open>CHR 0x5C \<in> set [CHR 0x5C, CHR 0x5C] \<and>
   constructQueryResponseFromIterator [Inr ([CHR 0x5C, CHR 0x5C], ''1'')] =
     Inr (''[{"Key":"'' @ [CHR 0x5C, CHR 0x5C] @ ''", "Record":1}]'') \<and>
   wellFormedJSONArray (''[{"Key":"'' @ [CHR 0x5C, CHR 0x5C] @ ''", "Record":1}]'') \<and>
   CHR 0x22 \<in> set ''a","b":"c'' \<and>
   constructQueryResponseFromIterator [Inr (''a","b":"c'', ''1'')] =
     Inr ''[{"Key":"a","b":"c", "Record":1}]'' \<and>
   wellFormedJSONArray ''[{"Key":"a","b":"c", "Record":1}]''\<close>
  by (simp add: constructQueryResponseFromIterator_def wellFormedJSONArray_def
      jsonNumber_def isDigit_def)

section \<open>Properties of \<^verbatim>\<open>queryfile\<close>\<close>

text \<open>
  C4, as the code has it. With an empty argument list \<^verbatim>\<open>queryfile\<close> fails
  with the error \<^verbatim>\<open>Incorrect number of arguments. Expecting 1\<close> and makes no call
  on the stub. With one argument it hands that argument to the query engine as it
  is, empty or not, and its result is the engine's: the error of the engine or of
  the cursor, or the materialized array.
\<close>

theorem queryfile_argument_check:
  \<open>queryfile stub [] = (Error ''Incorrect number of arguments. Expecting 1'', stub) \<and>
   queryfile stub [queryString] =
     (case queryEngine stub queryString of
        Inl err \<Rightarrow> (Error err, stub\<lparr>calls := calls stub @ [CGetQueryResult queryString]\<rparr>)
      | Inr resultsIterator \<Rightarrow>
          (case constructQueryResponseFromIterator resultsIterator of
             Inl err \<Rightarrow> Error err
           | Inr buffer \<Rightarrow> Success buffer,
           stub\<lparr>calls := calls stub @ [CGetQueryResult queryString, CClose]\<rparr>))\<close>
  by (simp add: queryfile_def getQueryResultForQueryString_def GetQueryResult_def logCall_def
      split: sum.splits)

text \<open>
  The empty query expression is not refused: on a ledger whose engine finds
  nothing, \<^verbatim>\<open>queryfile\<close> with the empty string as its one argument calls the
  engine and succeeds with \<^verbatim>\<open>[]\<close>.
\<close>

theorem queryfile_empty_expression_counterexample:
  \<open>queryfile emptyLedger [''''] =
     (Success ''[]'', emptyLedger\<lparr>calls := [CGetQueryResult '''', CClose]\<rparr>)\<close>
  by (simp add: queryfile_def getQueryResultForQueryString_def GetQueryResult_def logCall_def
      constructQueryResponseFromIterator_def emptyLedger_def)

section \<open>Properties of \<^verbatim>\<open>initFile\<close>\<close>



text \<open>
  C1. The claim is about the record stored by a call with three non-empty
  arguments. The code stores none: after the three checks it reads
  \<^verbatim>\<open>args[3]\<close> (line 67) on a slice of length 3, which panics before the stub is
  touched. With three arguments \<^verbatim>\<open>initFile\<close> returns one of the three
  empty-argument errors or panics, and the stub is as it was.
\<close>

theorem initFile_three_arguments:
  "initFile stub [name, hash, url] =
     (if name = [] then (Inr (Error ''1st argument must be a non-empty string''), stub)
      else if hash = [] then (Inr (Error ''2nd argument must be a non-empty string''), stub)
      else if url = [] then (Inr (Error ''3rd argument must be a non-empty string''), stub)
      else (Inl (IndexOutOfRange 3 3), stub))"
  by (simp add: initFile_def index_def)

text \<open>
  C6. Two calls of \<^verbatim>\<open>initFile\<close> with the same name, one after the other on
  the empty ledger: the first panics at \<^verbatim>\<open>args[3]\<close> and leaves the ledger as
  it was, and the second, with the repeated name, panics in the same way. It
  does not fail with the duplicate-record error; no call of \<^verbatim>\<open>initFile\<close>, on
  any ledger and with any arguments, returns that error.
\<close>

theorem second_initFile_panics:
  \<open>initFile emptyLedger [''f'', ''ab'', ''u''] = (Inl (IndexOutOfRange 3 3), emptyLedger) \<and>
   initFile (snd (initFile emptyLedger [''f'', ''ab'', ''u''])) [''f'', ''CD'', ''V''] =
     (Inl (IndexOutOfRange 3 3), emptyLedger) \<and>
   fst (initFile stub args) \<noteq> Inr (Error (''This file is  already exists: '' @ name))\<close>
  by (simp add: initFile_def index_def)

section \<open>Properties of \<^verbatim>\<open>deleteFile\<close>\<close>


text \<open>
  C8. When the read of \<open>name\<close> succeeds and finds no primary entry,
  \<^verbatim>\<open>deleteFile\<close> fails with the error \<^verbatim>\<open>{"Error":"Marble does not exist: name"}\<close>;
  the read is its only call on the stub, so nothing is written or deleted and
  the world state is unchanged.
\<close>

theorem delete_missing_record:
  assumes "getFails stub name = None" and "kv stub name = None"
  shows \<open>deleteFile stub [name] =
     (Error (''{"Error":"Marble does not exist: '' @ name @ ''"}''),
      stub\<lparr>calls := calls stub @ [CGetState name]\<rparr>)\<close>
  using assms by (simp add: deleteFile_def GetState_def logCall_def)

text \<open>The name \<^verbatim>\<open>ghost\<close> on the empty ledger.\<close>

theorem delete_missing_record_witness:
  \<open>getFails emptyLedger ''ghost'' = None \<and> kv emptyLedger ''ghost'' = None \<and>
   deleteFile emptyLedger [''ghost''] =
     (Error ''{"Error":"Marble does not exist: ghost"}'',
      emptyLedger\<lparr>calls := calls emptyLedger @ [CGetState ''ghost'']\<rparr>)\<close>
proof -
  have g: "getFails emptyLedger ''ghost'' = None" and k: "kv emptyLedger ''ghost'' = None"
    by (simp_all add: emptyLedger_def)
  from delete_missing_record [OF g k] g k show ?thesis by simp
qed

text \<open>
  C10. Once \<^verbatim>\<open>deleteFile\<close> has read and decoded the record and the deletion
  of the primary entry has succeeded, the calls on the stub are in this order:
  the read, the deletion of \<open>name\<close>, the building of the index key, and then the
  deletion of the index key. If the key cannot be built, or if the deletion of
  the index key fails, the result is an error and the world state is the one
  before the call with \<open>name\<close> removed: the primary entry is not put back.
\<close>

theorem delete_not_rolled_back:
  assumes "getFails stub name = None" and "kv stub name = Some valAsbytes"
    and "jsonUnmarshal stub valAsbytes = Inr fileJSON" and "delFails stub name = None"
  shows
    "case compositeKey stub ''Hash~name'' [FileHash fileJSON, FileName fileJSON] of
       Inl err \<Rightarrow>
         deleteFile stub [name] =
           (Error err,
            stub\<lparr>kv := (kv stub)(name := None),
                 calls := calls stub @ [CGetState name, CDelState name,
                   CCreateCompositeKey ''Hash~name'' [FileHash fileJSON, FileName fileJSON]]\<rparr>)
     | Inr colorNameIndexKey \<Rightarrow>
         (case delFails stub colorNameIndexKey of
            Some err \<Rightarrow>
              deleteFile stub [name] =
                (Error (''Failed to delete state:'' @ err),
                 stub\<lparr>kv := (kv stub)(name := None),
                      calls := calls stub @ [CGetState name, CDelState name,
                        CCreateCompositeKey ''Hash~name'' [FileHash fileJSON, FileName fileJSON],
                        CDelState colorNameIndexKey]\<rparr>)
          | None \<Rightarrow>
              deleteFile stub [name] =
                (Success [],
                 stub\<lparr>kv := (kv stub)(name := None, colorNameIndexKey := None),
                      calls := calls stub @ [CGetState name, CDelState name,
                        CCreateCompositeKey ''Hash~name'' [FileHash fileJSON, FileName fileJSON],
                        CDelState colorNameIndexKey]\<rparr>))"
  using assms
  by (simp add: deleteFile_def GetState_def DelState_def CreateCompositeKey_def logCall_def
      split: sum.splits option.splits)

text \<open>
  Two ledgers that hold \<^verbatim>\<open>f\<close>: on the first the deletion of the index key is
  refused, on the second the key cannot be built. Both calls return the error,
  and \<^verbatim>\<open>f\<close> is gone afterwards.
\<close>

theorem delete_not_rolled_back_witness:
  "fst (deleteFile indexDeleteFailsLedger [''f'']) = Error ''Failed to delete state:delete refused'' \<and>
   kv indexDeleteFailsLedger ''f'' = Some exampleRecord \<and>
   kv (snd (deleteFile indexDeleteFailsLedger [''f''])) ''f'' = None \<and>
   kv (snd (deleteFile indexDeleteFailsLedger [''f''])) hashNameKey = Some [CHR 0x00] \<and>
   fst (deleteFile keyBuildFailsLedger [''f'']) = Error ''not a valid utf8 string'' \<and>
   kv keyBuildFailsLedger ''f'' = Some exampleRecord \<and>
   kv (snd (deleteFile keyBuildFailsLedger [''f''])) ''f'' = None"
proof -
  let ?fj = "\<lparr>FileName = ''f'', FileHash = ''ab'', FileUrl = ''u''\<rparr>"
  let ?ck = "CHR 0x00 # ''Hash~name'' @ [CHR 0x00] @ ''ab'' @ [CHR 0x00] @ ''f'' @ [CHR 0x00]"
  have a: "getFails indexDeleteFailsLedger ''f'' = None"
    "kv indexDeleteFailsLedger ''f'' = Some exampleRecord"
    "jsonUnmarshal indexDeleteFailsLedger exampleRecord = Inr ?fj"
    "delFails indexDeleteFailsLedger ''f'' = None"
    by (simp_all add: indexDeleteFailsLedger_def storedLedger_def emptyLedger_def
        exampleUnmarshal_def hashNameKey_def)
  have b: "getFails keyBuildFailsLedger ''f'' = None"
    "kv keyBuildFailsLedger ''f'' = Some exampleRecord"
    "jsonUnmarshal keyBuildFailsLedger exampleRecord = Inr ?fj"
    "delFails keyBuildFailsLedger ''f'' = None"
    by (simp_all add: keyBuildFailsLedger_def storedLedger_def emptyLedger_def
        exampleUnmarshal_def hashNameKey_def)
  have ck: "compositeKey indexDeleteFailsLedger ''Hash~name'' [''ab'', ''f''] = Inr ?ck"
    by (simp add: indexDeleteFailsLedger_def storedLedger_def emptyLedger_def
        shimCompositeKey_def)
  have df: "delFails indexDeleteFailsLedger ?ck = Some ''delete refused''"
    by (simp add: indexDeleteFailsLedger_def storedLedger_def emptyLedger_def)
  have kb: "compositeKey keyBuildFailsLedger ''Hash~name'' [''ab'', ''f''] =
      Inl ''not a valid utf8 string''"
    by (simp add: keyBuildFailsLedger_def storedLedger_def emptyLedger_def)
  have h: "kv indexDeleteFailsLedger hashNameKey = Some [CHR 0x00]"
    by (simp add: indexDeleteFailsLedger_def storedLedger_def emptyLedger_def hashNameKey_def)
  from delete_not_rolled_back [OF a] ck df
  have 1: "deleteFile indexDeleteFailsLedger [''f''] =
      (Error ''Failed to delete state:delete refused'',
       indexDeleteFailsLedger\<lparr>kv := (kv indexDeleteFailsLedger)(''f'' := None),
         calls := calls indexDeleteFailsLedger @ [CGetState ''f'', CDelState ''f'',
           CCreateCompositeKey ''Hash~name'' [''ab'', ''f''], CDelState ?ck]\<rparr>)"
    by simp
  from delete_not_rolled_back [OF b] kb
  have 2: "deleteFile keyBuildFailsLedger [''f''] =
      (Error ''not a valid utf8 string'',
       keyBuildFailsLedger\<lparr>kv := (kv keyBuildFailsLedger)(''f'' := None),
         calls := calls keyBuildFailsLedger @ [CGetState ''f'', CDelState ''f'',
           CCreateCompositeKey ''Hash~name'' [''ab'', ''f'']]\<rparr>)"
    by simp
  show ?thesis
    using a(2) b(2) h by (simp add: 1 2 hashNameKey_def)
qed

section \<open>The states the handlers can reach\<close>




section \<open>The statements of \<^verbatim>\<open>initFile\<close> after line 67\<close>

text \<open>
  No call reaches lines 69 to 102 of \<^verbatim>\<open>initFile\<close>. Read on their own, with the
  three locals given, they behave as follows. These lemmas are about
  \<open>initFile_store\<close> and about a ledger with entries put there by hand, not about
  anything a call of \<^verbatim>\<open>initFile\<close> does.
\<close>

lemma initFile_store_duplicate:
  assumes "getFails stub fileName = None" and "kv stub fileName = Some filenameAsBytes"
  shows "initFile_store stub fileName fileHash fileUrl =
     (Error (''This file is  already exists: '' @ fileName),
      stub\<lparr>calls := calls stub @ [CGetState fileName]\<rparr>)"
  using assms by (simp add: initFile_store_def GetState_def logCall_def)

lemma initFile_store_ignores_index_write:
  assumes "getFails stub fileName = None" and "kv stub fileName = None"
    and "jsonMarshal stub \<lparr>FileName = fileName, FileHash = fileHash, FileUrl = fileUrl\<rparr>
           = Inr fileJSONasBytes"
    and "putFails stub fileName fileJSONasBytes = None"
    and "compositeKey stub ''hash~name'' [fileHash, fileName] = Inr fileHashNameIndexKey"
    and "putFails stub fileHashNameIndexKey [CHR 0x00] = Some err"
  shows "initFile_store stub fileName fileHash fileUrl =
     (Success [],
      stub\<lparr>kv := (kv stub)(fileName \<mapsto> fileJSONasBytes),
           calls := calls stub @ [CGetState fileName, CPutState fileName fileJSONasBytes,
             CCreateCompositeKey ''hash~name'' [fileHash, fileName],
             CPutState fileHashNameIndexKey [CHR 0x00]]\<rparr>)"
  using assms
  by (simp add: initFile_store_def GetState_def PutState_def CreateCompositeKey_def
      logCall_def)

lemma deleteFile_keeps_planted_index_entry:
  \<open>initFile_store emptyLedger ''f'' ''ab'' ''u'' =
     (Success [],
      storedLedger\<lparr>calls := [CGetState ''f'', CPutState ''f'' exampleRecord,
         CCreateCompositeKey ''hash~name'' [''ab'', ''f''], CPutState hashNameKey [CHR 0x00]]\<rparr>) \<and>
   fst (deleteFile storedLedger [''f'']) = Success [] \<and>
   kv (snd (deleteFile storedLedger [''f''])) ''f'' = None \<and>
   kv (snd (deleteFile storedLedger [''f''])) hashNameKey = Some [CHR 0x00]\<close>
  by (simp add: initFile_store_def deleteFile_def GetState_def PutState_def DelState_def
      CreateCompositeKey_def logCall_def storedLedger_def emptyLedger_def shimCompositeKey_def
      plainMarshal_def exampleRecord_def exampleUnmarshal_def hashNameKey_def Let_def)

end
